theory Spec2Isabelle
  imports Main "HOL-Library.Sublist"
begin

section \<open>Python strings\<close>

text \<open>
  A Python \<open>str\<close> is a sequence of Unicode code points and \<open>len\<close> counts code points,
  so a string is a list of natural numbers. The literals of the source are written as
  \<open>str ''...''\<close>; the box-drawing characters and the two glyphs, which lie outside ASCII,
  are given by their code points.
\<close>

type_synonym pystr = "nat list"

definition str :: "string \<Rightarrow> pystr" where
  "str s = map of_char s"

text \<open>\<open>s.startswith(p)\<close>\<close>

fun startswith :: "pystr \<Rightarrow> pystr \<Rightarrow> bool" where
  "startswith s [] = True"
| "startswith [] (c # p) = False"
| "startswith (x # s) (c # p) = (x = c \<and> startswith s p)"

text \<open>\<open>s.endswith(p)\<close>\<close>

definition endswith :: "pystr \<Rightarrow> pystr \<Rightarrow> bool" where
  "endswith s p = startswith (rev s) (rev p)"

text \<open>\<open>sub in s\<close>: \<open>sub\<close> occurs in \<open>s\<close> as a contiguous substring.\<close>

fun str_in :: "pystr \<Rightarrow> pystr \<Rightarrow> bool" where
  "str_in sub [] = (sub = [])"
| "str_in sub (x # xs) = (startswith (x # xs) sub \<or> str_in sub xs)"

text \<open>
  \<open>s[i:j]\<close> with Python's treatment of the bounds: a negative bound counts from the end,
  and both bounds are clipped to the string.
\<close>

definition clip_index :: "pystr \<Rightarrow> int \<Rightarrow> nat" where
  "clip_index s k =
     (let n = int (length s) in
      if k < 0 then nat (max (n + k) 0) else nat (min k n))"

definition slice :: "pystr \<Rightarrow> int \<Rightarrow> int \<Rightarrow> pystr" where
  "slice s i j = take (clip_index s j - clip_index s i) (drop (clip_index s i) s)"

text \<open>\<open>s[i:]\<close>\<close>

definition slice_from :: "pystr \<Rightarrow> int \<Rightarrow> pystr" where
  "slice_from s i = drop (clip_index s i) s"

text \<open>
  \<open>s * n\<close>: \<open>n\<close> copies of \<open>s\<close>, and the empty string when \<open>n\<close> is zero or negative.
\<close>

definition str_mul :: "pystr \<Rightarrow> int \<Rightarrow> pystr" where
  "str_mul s n = concat (replicate (nat n) s)"

text \<open>
  \<open>str.lower\<close> follows the Unicode case tables, which are no part of the repository.
  The functions below take it as the parameter \<open>lower\<close>, so that what is proved holds
  for whatever \<open>str.lower\<close> returns. On strings whose cased letters are all ASCII,
  \<open>str.lower\<close> is \<open>ascii_lower\<close>, which the evaluations at concrete names use.
\<close>

definition ascii_lower_cp :: "nat \<Rightarrow> nat" where
  "ascii_lower_cp c = (if 65 \<le> c \<and> c \<le> 90 then c + 32 else c)"

definition ascii_lower :: "pystr \<Rightarrow> pystr" where
  "ascii_lower s = map ascii_lower_cp s"

section \<open>The callback's state\<close>

text \<open>
  The attributes that \<open>CallbackModule.__init__\<close> creates. \<open>task_categories\<close> is a dict
  whose iteration order is its insertion order, hence an association list.
\<close>

record callback =
  task_status :: "(pystr \<times> pystr) list"
  current_task :: "pystr option"
  current_play :: "pystr option"
  task_count :: int
  total_tasks :: int
  system_tasks :: "pystr list"
  dev_tools_tasks :: "pystr list"
  final_setup_tasks :: "pystr list"
  task_categories :: "(pystr \<times> pystr list) list"

definition init_task_categories :: "(pystr \<times> pystr list) list" where
  "init_task_categories =
     [(str ''System Configuration'',
        [str ''Set hostname'',
         str ''Update /etc/hosts'',
         str ''Generate en_US.UTF-8 locale'',
         str ''Set system locale'',
         str ''Set system timezone'',
         str ''Update apt cache'',
         str ''Install locale packages'',
         str ''Install base system packages'']),
      (str ''Development Tools'',
        [str ''Install NVM'',
         str ''Install Node.js'',
         str ''Update npm'',
         str ''Enable corepack'',
         str ''Install pnpm'',
         str ''Install global npm packages'',
         str ''Install additional APT packages'',
         str ''Install Rust'',
         str ''Install cargo packages'',
         str ''Install pyenv'']),
      (str ''Final Setup'',
        [str ''Change.*shell'',
         str ''Generate .zshrc'',
         str ''shell configuration'',
         str ''permissions''])]"

definition init :: callback where
  "init =
     \<lparr>task_status = [],
      current_task = None,
      current_play = None,
      task_count = 0,
      total_tasks = 0,
      system_tasks = [],
      dev_tools_tasks = [],
      final_setup_tasks = [],
      task_categories = init_task_categories\<rparr>"

section \<open>Task categorizer\<close>

text \<open>The condition of the \<open>if\<close> in \<open>_categorize_task\<close>.\<close>

definition pattern_hit :: "(pystr \<Rightarrow> pystr) \<Rightarrow> pystr \<Rightarrow> pystr \<Rightarrow> bool" where
  "pattern_hit lower pattern task_name \<longleftrightarrow>
     str_in (lower pattern) (lower task_name) \<or>
     (startswith pattern (str ''.*'') \<and> endswith pattern (str ''.*'') \<and>
      str_in (lower (slice pattern 2 (- 2))) (lower task_name))"

text \<open>The inner loop over the patterns of one category: it returns at the first hit.\<close>

fun scan_patterns ::
  "(pystr \<Rightarrow> pystr) \<Rightarrow> pystr \<Rightarrow> pystr list \<Rightarrow> pystr \<Rightarrow> pystr option" where
  "scan_patterns lower category [] task_name = None"
| "scan_patterns lower category (pattern # patterns) task_name =
     (if pattern_hit lower pattern task_name then Some category
      else scan_patterns lower category patterns task_name)"

text \<open>The outer loop over \<open>task_categories.items()\<close>; \<open>None\<close> when it runs to its end.\<close>

fun scan_categories ::
  "(pystr \<Rightarrow> pystr) \<Rightarrow> (pystr \<times> pystr list) list \<Rightarrow> pystr \<Rightarrow> pystr option" where
  "scan_categories lower [] task_name = None"
| "scan_categories lower ((category, patterns) # items) task_name =
     (case scan_patterns lower category patterns task_name of
        Some c \<Rightarrow> Some c
      | None \<Rightarrow> scan_categories lower items task_name)"

definition categorize_task :: "(pystr \<Rightarrow> pystr) \<Rightarrow> callback \<Rightarrow> pystr \<Rightarrow> pystr option" where
  "categorize_task lower self task_name =
     scan_categories lower (task_categories self) task_name"

section \<open>Name simplifier\<close>

text \<open>The dict \<open>simplifications\<close> of \<open>_simplify_task_name\<close>, in insertion order.\<close>

definition simplifications :: "(pystr \<times> pystr) list" where
  "simplifications =
     [(str ''Install '', []),
      (str ''Set '', []),
      (str ''Update '', []),
      (str ''Enable '', []),
      (str ''Generate '', []),
      (str ''Download '', []),
      (str ''Change '', [])]"

text \<open>
  The loop over \<open>simplifications.items()\<close>: at the first prefix that the name starts
  with, the name is cut to \<open>simple_name[len(prefix):]\<close> and the loop is left.
\<close>

fun strip_first_prefix :: "(pystr \<times> pystr) list \<Rightarrow> pystr \<Rightarrow> pystr" where
  "strip_first_prefix [] simple_name = simple_name"
| "strip_first_prefix ((pfx, replacement) # items) simple_name =
     (if startswith simple_name pfx then slice_from simple_name (int (length pfx))
      else strip_first_prefix items simple_name)"

definition simplify_task_name :: "pystr \<Rightarrow> pystr" where
  "simplify_task_name task_name =
     (let simple_name = strip_first_prefix simplifications task_name in
      if str_in (str ''base system packages'') simple_name then str ''Base packages (25)''
      else if str_in (str ''global npm packages'') simple_name then str ''Global packages (5)''
      else if str_in (str ''additional APT packages'') simple_name then str ''Additional packages''
      else simple_name)"

section \<open>Terminal output\<close>

text \<open>
  What a handler does to \<open>sys.stdout\<close>, in order: \<open>write\<close> calls with their text,
  and \<open>flush\<close> calls.
\<close>

datatype out = Write pystr | Flush

text \<open>
  The fixed pieces of the format strings: carriage return, newline, the three tree
  prefixes (U+251C, U+2500, U+2502 and U+2514 are the box-drawing characters) and the
  two glyphs (U+2713 check mark, U+2717 ballot x).
\<close>

definition CR :: pystr where
  "CR = [13]"

definition NL :: pystr where
  "NL = [10]"

definition top_prefix :: pystr where
  "top_prefix = str ''   '' @ [0x251C, 0x2500] @ str '' ''"

definition sub_prefix :: pystr where
  "sub_prefix = str ''   '' @ [0x2502] @ str ''  '' @ [0x251C, 0x2500] @ str '' ''"

definition err_prefix :: pystr where
  "err_prefix = str ''   '' @ [0x2502] @ str ''  '' @ [0x2514, 0x2500] @ str '' ''"

definition check_mark :: pystr where
  "check_mark = [0x2713]"

definition ballot_x :: pystr where
  "ballot_x = [0x2717]"

text \<open>The expression \<open>'.' * (width - len(name))\<close> of the three format strings.\<close>

definition dot_fill :: "int \<Rightarrow> pystr \<Rightarrow> pystr" where
  "dot_fill width name = str_mul (str ''.'') (width - int (length name))"

text \<open>The format string of line 80: the placeholder of a task that has started.\<close>

definition placeholder :: "pystr \<Rightarrow> pystr" where
  "placeholder task_name = top_prefix @ task_name @ str '' ''"

text \<open>The format string of line 103.\<close>

definition condensed_ok_line :: "pystr \<Rightarrow> pystr" where
  "condensed_ok_line simple_name =
     CR @ sub_prefix @ simple_name @ str '' '' @ dot_fill 35 simple_name
       @ str '' '' @ check_mark @ NL"

text \<open>The format string of line 106.\<close>

definition ok_line :: "pystr \<Rightarrow> pystr" where
  "ok_line task_name =
     CR @ top_prefix @ task_name @ str '' '' @ dot_fill 50 task_name
       @ str '' '' @ check_mark @ NL"

text \<open>The format strings of lines 112 and 113.\<close>

definition failed_line :: "pystr \<Rightarrow> pystr" where
  "failed_line task_name =
     CR @ top_prefix @ task_name @ str '' '' @ dot_fill 50 task_name
       @ str '' '' @ ballot_x @ NL"

definition error_line :: "pystr \<Rightarrow> pystr" where
  "error_line message = err_prefix @ str ''Error: '' @ message @ NL"

section \<open>Event handlers\<close>

text \<open>
  The fields of \<open>result._result\<close> that the handlers read with \<open>get\<close>; \<open>None\<close> is an
  absent key. The values are of the types the engine gives them, a boolean and a string.
\<close>

record task_result =
  changed :: "bool option"
  msg :: "pystr option"

text \<open>Python's truth test on an optional string: \<open>None\<close> and \<open>''\<close> are false.\<close>

fun truthy :: "pystr option \<Rightarrow> bool" where
  "truthy None = False"
| "truthy (Some s) = (s \<noteq> [])"

text \<open>
  Every handler takes the callback object and returns it, updated, with what it wrote.
  The play and the task are given by the names that \<open>get_name()\<close> returns.
\<close>

definition v2_playbook_on_play_start :: "callback \<Rightarrow> pystr \<Rightarrow> callback \<times> out list" where
  "v2_playbook_on_play_start self play = (self\<lparr>current_play := Some play\<rparr>, [])"

definition v2_playbook_on_task_start ::
  "(pystr \<Rightarrow> pystr) \<Rightarrow> callback \<Rightarrow> pystr \<Rightarrow> bool \<Rightarrow> callback \<times> out list" where
  "v2_playbook_on_task_start lower self task is_conditional =
     (let self' = self\<lparr>current_task := Some task\<rparr> in
      if startswith task (str ''Gathering Facts'') \<or> task = [] then (self', [])
      else
        let category = categorize_task lower self' task in
        if truthy category then (self', [])
        else (self', [Write (placeholder task), Flush]))"

text \<open>
  \<open>changed\<close> and \<open>status\<close> are computed as in the source; the format strings do not
  use them.
\<close>

definition v2_runner_on_ok ::
  "(pystr \<Rightarrow> pystr) \<Rightarrow> callback \<Rightarrow> task_result \<Rightarrow> callback \<times> out list" where
  "v2_runner_on_ok lower self result =
     (case current_task self of
        None \<Rightarrow> (self, [])
      | Some task_name \<Rightarrow>
          if task_name \<noteq> [] \<and> \<not> startswith task_name (str ''Gathering Facts'') then
            let changed = (case changed result of Some b \<Rightarrow> b | None \<Rightarrow> False);
                status = (if changed then check_mark else check_mark);
                category = categorize_task lower self task_name
            in
              if truthy category then
                let simple_name = simplify_task_name task_name in
                (self, [Write (condensed_ok_line simple_name), Flush])
              else (self, [Write (ok_line task_name), Flush])
          else (self, []))"

definition v2_runner_on_failed ::
  "callback \<Rightarrow> task_result \<Rightarrow> bool \<Rightarrow> callback \<times> out list" where
  "v2_runner_on_failed self result ignore_errors =
     (case current_task self of
        None \<Rightarrow> (self, [])
      | Some task_name \<Rightarrow>
          if task_name \<noteq> [] \<and> \<not> ignore_errors then
            (self,
             [Write (failed_line task_name),
              Write (error_line
                (case msg result of Some m \<Rightarrow> m | None \<Rightarrow> str ''Unknown error'')),
              Flush])
          else (self, []))"

definition v2_runner_on_skipped :: "callback \<Rightarrow> task_result \<Rightarrow> callback \<times> out list" where
  "v2_runner_on_skipped self result = (self, [])"

definition v2_playbook_on_stats :: "callback \<Rightarrow> callback \<times> out list" where
  "v2_playbook_on_stats self = (self, [])"

definition display :: "callback \<Rightarrow> pystr \<Rightarrow> callback \<times> out list" where
  "display self message = (self, [])"

text \<open>The engine calls the handlers one at a time, in the order of the events.\<close>

datatype event =
    PlayStart pystr
  | TaskStart pystr bool
  | RunnerOk task_result
  | RunnerFailed task_result bool
  | RunnerSkipped task_result
  | Stats
  | Display pystr

fun handle :: "(pystr \<Rightarrow> pystr) \<Rightarrow> callback \<Rightarrow> event \<Rightarrow> callback \<times> out list" where
  "handle lower self (PlayStart play) = v2_playbook_on_play_start self play"
| "handle lower self (TaskStart task is_conditional) =
     v2_playbook_on_task_start lower self task is_conditional"
| "handle lower self (RunnerOk result) = v2_runner_on_ok lower self result"
| "handle lower self (RunnerFailed result ignore_errors) =
     v2_runner_on_failed self result ignore_errors"
| "handle lower self (RunnerSkipped result) = v2_runner_on_skipped self result"
| "handle lower self Stats = v2_playbook_on_stats self"
| "handle lower self (Display message) = display self message"

fun run :: "(pystr \<Rightarrow> pystr) \<Rightarrow> callback \<Rightarrow> event list \<Rightarrow> callback \<times> out list" where
  "run lower self [] = (self, [])"
| "run lower self (e # es) =
     (let (self1, out1) = handle lower self e;
          (self2, out2) = run lower self1 es
      in (self2, out1 @ out2))"

section \<open>Definitions that follow the specification's words\<close>

text \<open>
  The specification's matching rule: a pattern's text is a case-insensitive substring
  of the task name, both sides lowercased.
\<close>

definition ci_substring :: "(pystr \<Rightarrow> pystr) \<Rightarrow> pystr \<Rightarrow> pystr \<Rightarrow> bool" where
  "ci_substring lower text name = str_in (lower text) (lower name)"

text \<open>
  The specification's ordered scan: all patterns of the table with their categories,
  categories in declared order and, within each, patterns in declared order.
\<close>

definition declared_patterns :: "(pystr \<times> pystr list) list \<Rightarrow> (pystr \<times> pystr) list" where
  "declared_patterns items =
     concat (map (\<lambda>(category, patterns). map (\<lambda>pattern. (category, pattern)) patterns) items)"

text \<open>
  The specification's \<open>categorize\<close>: the category of the first pattern of the ordered
  scan that matches, none if no pattern matches.
\<close>

definition spec_categorize ::
  "(pystr \<Rightarrow> pystr) \<Rightarrow> (pystr \<times> pystr list) list \<Rightarrow> pystr \<Rightarrow> pystr option" where
  "spec_categorize lower items name =
     map_option fst
       (find (\<lambda>(category, pattern). ci_substring lower pattern name) (declared_patterns items))"

text \<open>
  The name supplied by the most recent task-start event of a sequence of events, none
  when the sequence has no task-start event.
\<close>

fun last_started :: "event list \<Rightarrow> pystr option" where
  "last_started [] = None"
| "last_started (e # es) =
     (case last_started es of
        Some name \<Rightarrow> Some name
      | None \<Rightarrow> (case e of TaskStart name c \<Rightarrow> Some name | _ \<Rightarrow> None))"

text \<open>
  A pattern that the second disjunct of \<open>pattern_hit\<close> never applies to: it is not
  wrapped in a leading and a trailing \<open>.*\<close>.
\<close>

definition plain_pattern :: "pystr \<Rightarrow> bool" where
  "plain_pattern pattern =
     (\<not> (startswith pattern (str ''.*'') \<and> endswith pattern (str ''.*'')))"

text \<open>The three substrings that \<open>_simplify_task_name\<close> looks for, in the order it tests them.\<close>

definition triggers :: "pystr list" where
  "triggers =
     [str ''base system packages'',
      str ''global npm packages'',
      str ''additional APT packages'']"

section \<open>The terminal\<close>






section \<open>Python strings: facts\<close>

lemma startswith_prefix: "startswith s p = prefix p s"
  by (induction s p rule: startswith.induct) auto

lemma str_in_sublist: "str_in sub s = sublist sub s"
  by (induction s) (auto simp: startswith_prefix sublist_Cons_right)

lemma str_in_suffix: "str_in t rest \<Longrightarrow> str_in t (pfx @ rest)"
  unfolding str_in_sublist sublist_def by (metis append.assoc)

lemma slice_from_length: "slice_from s (int n) = drop n s"
  by (simp add: slice_from_def clip_index_def min_def)

lemma concat_replicate_single: "concat (replicate n [x]) = replicate n x"
  by (induction n) simp_all

lemma dot_fill_replicate:
  "dot_fill width name = replicate (nat (max (width - int (length name)) 0)) 46"
  by (simp add: dot_fill_def str_mul_def str_def concat_replicate_single max_def)

section \<open>The categorizer returns the first match of the ordered scan\<close>

lemma find_append_first:
  "find P (xs @ ys) = (case find P xs of Some x \<Rightarrow> Some x | None \<Rightarrow> find P ys)"
  by (induction xs) auto

lemma pattern_hit_plain:
  "plain_pattern pattern \<Longrightarrow> pattern_hit lower pattern name = ci_substring lower pattern name"
  by (auto simp: pattern_hit_def plain_pattern_def ci_substring_def)

lemma scan_patterns_find:
  "\<forall>p \<in> set patterns. plain_pattern p \<Longrightarrow>
   scan_patterns lower category patterns name =
     map_option fst
       (find (\<lambda>(c, p). ci_substring lower p name) (map (\<lambda>p. (category, p)) patterns))"
  by (induction patterns) (simp_all add: pattern_hit_plain)

lemma scan_categories_spec:
  "\<forall>(c, ps) \<in> set items. \<forall>p \<in> set ps. plain_pattern p \<Longrightarrow>
   scan_categories lower items name = spec_categorize lower items name"
proof (induction items)
  case Nil
  show ?case by (simp add: spec_categorize_def declared_patterns_def)
next
  case (Cons item items)
  obtain c ps where item: "item = (c, ps)" by (cases item)
  from Cons.prems item have ps: "\<forall>p \<in> set ps. plain_pattern p" by simp
  from Cons.prems have rest: "\<forall>(c, ps) \<in> set items. \<forall>p \<in> set ps. plain_pattern p" by simp
  have ih: "scan_categories lower items name = spec_categorize lower items name"
    using Cons.IH rest by blast
  show ?case
    using ih scan_patterns_find [OF ps, of lower c name]
    by (simp add: item spec_categorize_def declared_patterns_def find_append_first
          split: option.splits)
qed

lemma init_patterns_plain:
  "\<forall>(c, ps) \<in> set init_task_categories. \<forall>p \<in> set ps. plain_pattern p"
  by (simp add: init_task_categories_def plain_pattern_def str_def)

text \<open>
  Claim C1. For every task name, \<open>_categorize_task\<close> on the table that \<open>__init__\<close>
  builds returns the category of the earliest-declared pattern (categories in declared
  order, patterns in declared order within each) whose text, lowercased, is a substring
  of the lowercased task name, and \<open>None\<close> when no pattern of any category matches.
  The text of a pattern is the string as the table declares it.
\<close>

theorem categorize_first_match:
  "categorize_task lower init task_name = spec_categorize lower init_task_categories task_name"
  using scan_categories_spec [OF init_patterns_plain]
  by (simp add: categorize_task_def init_def)

theorem categorize_first_match_witness:
  "categorize_task ascii_lower init (str ''update APT cache now'')
     = Some (str ''System Configuration'') \<and>
   categorize_task ascii_lower init (str ''Reboot later'') = None"
proof -
  have "spec_categorize ascii_lower init_task_categories (str ''update APT cache now'')
          = Some (str ''System Configuration'')"
    by code_simp
  moreover have "spec_categorize ascii_lower init_task_categories (str ''Reboot later'') = None"
    by code_simp
  ultimately show ?thesis
    using categorize_first_match [of ascii_lower "str ''update APT cache now''"]
      categorize_first_match [of ascii_lower "str ''Reboot later''"]
    by simp
qed

section \<open>Dot fill\<close>

text \<open>
  Claim C8. For a display name of length L and a width W, the fill is exactly
  max(W - L, 0) dots, hence no dot when L is at least W; the condensed line fills to
  width 35, the two top-level lines fill to width 50.
\<close>

theorem dot_fill_count:
  "dot_fill width name = replicate (nat (max (width - int (length name)) 0)) 46 \<and>
   int (length (dot_fill width name)) = max (width - int (length name)) 0 \<and>
   (width \<le> int (length name) \<longrightarrow> dot_fill width name = []) \<and>
   condensed_ok_line name =
     CR @ sub_prefix @ name @ str '' '' @ replicate (nat (max (35 - int (length name)) 0)) 46
       @ str '' '' @ check_mark @ NL \<and>
   ok_line name =
     CR @ top_prefix @ name @ str '' '' @ replicate (nat (max (50 - int (length name)) 0)) 46
       @ str '' '' @ check_mark @ NL \<and>
   failed_line name =
     CR @ top_prefix @ name @ str '' '' @ replicate (nat (max (50 - int (length name)) 0)) 46
       @ str '' '' @ ballot_x @ NL"
  by (simp add: dot_fill_replicate condensed_ok_line_def ok_line_def failed_line_def)

theorem dot_fill_count_witness:
  "dot_fill 50 (str ''Set hostname'') = replicate 38 46 \<and>
   (35::int) \<le> int (length (str ''Install additional APT packages now'')) \<and>
   dot_fill 35 (str ''Install additional APT packages now'') = []"
  using dot_fill_count [of 50 "str ''Set hostname''"]
    dot_fill_count [of 35 "str ''Install additional APT packages now''"]
  by (simp add: str_def)

section \<open>The current task\<close>

lemma task_start_current:
  "current_task (fst (v2_playbook_on_task_start lower self task c)) = Some task"
  by (simp add: v2_playbook_on_task_start_def Let_def)

lemma runner_ok_state: "fst (v2_runner_on_ok lower self result) = self"
  by (simp add: v2_runner_on_ok_def Let_def split: option.splits)

lemma runner_failed_state: "fst (v2_runner_on_failed self result ignore_errors) = self"
  by (simp add: v2_runner_on_failed_def split: option.splits)

lemma handle_current:
  "current_task (fst (handle lower self e)) =
     (case e of TaskStart name c \<Rightarrow> Some name | _ \<Rightarrow> current_task self)"
  by (cases e)
     (simp_all add: task_start_current runner_ok_state runner_failed_state
        v2_playbook_on_play_start_def v2_runner_on_skipped_def v2_playbook_on_stats_def
        display_def)

lemma run_current:
  "current_task (fst (run lower self es)) =
     (case last_started es of Some name \<Rightarrow> Some name | None \<Rightarrow> current_task self)"
proof (induction es arbitrary: self)
  case Nil
  show ?case by simp
next
  case (Cons e es)
  show ?case
    using Cons.IH [of "fst (handle lower self e)"] handle_current [of lower self e]
    by (cases e) (simp_all add: split_beta split: option.splits)
qed

text \<open>
  Claim C9. After any sequence of handler calls on a fresh callback object,
  \<open>current_task\<close> is the name given by the most recent task-start event, and \<open>None\<close>
  when there has been none: \<open>v2_playbook_on_task_start\<close> always stores the new name and
  every other handler leaves \<open>current_task\<close> as it is.
\<close>

theorem current_task_last_started:
  "current_task (fst (run lower init es)) = last_started es \<and>
   current_task (fst (v2_playbook_on_task_start lower self task c)) = Some task \<and>
   current_task (fst (v2_playbook_on_play_start self play)) = current_task self \<and>
   current_task (fst (v2_runner_on_ok lower self result)) = current_task self \<and>
   current_task (fst (v2_runner_on_failed self result ignore_errors)) = current_task self \<and>
   current_task (fst (v2_runner_on_skipped self result)) = current_task self \<and>
   current_task (fst (v2_playbook_on_stats self)) = current_task self \<and>
   current_task (fst (display self message)) = current_task self"
  by (simp add: run_current task_start_current runner_ok_state runner_failed_state
        v2_playbook_on_play_start_def v2_runner_on_skipped_def v2_playbook_on_stats_def
        display_def init_def split: option.splits)

section \<open>Failed tasks\<close>

text \<open>
  Claim C3. \<open>v2_runner_on_failed\<close> writes nothing exactly when there is no current task
  (\<open>current_task\<close> fails Python's truth test: it is \<open>None\<close> or the empty name) or
  \<open>ignore_errors\<close> is true. Otherwise it writes a carriage return, the top-level
  prefix, the full task name, a space, the dot fill to width 50, a space, the failure
  glyph and a newline, and then a second line made of the error prefix, \<open>Error: \<close> and
  the message, which is \<open>Unknown error\<close> when the result has no \<open>msg\<close>.
\<close>

theorem runner_failed_output:
  "(snd (v2_runner_on_failed self result ignore_errors) = [] \<longleftrightarrow>
      \<not> truthy (current_task self) \<or> ignore_errors) \<and>
   (\<forall>task_name.
      current_task self = Some task_name \<and> task_name \<noteq> [] \<and> \<not> ignore_errors \<longrightarrow>
      v2_runner_on_failed self result ignore_errors =
        (self,
         [Write (CR @ top_prefix @ task_name @ str '' ''
                   @ replicate (nat (max (50 - int (length task_name)) 0)) 46
                   @ str '' '' @ ballot_x @ NL),
          Write (err_prefix @ str ''Error: ''
                   @ (case msg result of Some m \<Rightarrow> m | None \<Rightarrow> str ''Unknown error'') @ NL),
          Flush]))"
  by (cases "current_task self")
     (simp_all add: v2_runner_on_failed_def failed_line_def error_line_def dot_fill_replicate)

theorem runner_failed_output_witness:
  "current_task (init\<lparr>current_task := Some (str ''Install Rust'')\<rparr>) = Some (str ''Install Rust'') \<and>
   str ''Install Rust'' \<noteq> [] \<and>
   snd (v2_runner_on_failed (init\<lparr>current_task := Some (str ''Install Rust'')\<rparr>)
          \<lparr>changed = None, msg = None\<rparr> False) =
     [Write ([13, 32, 32, 32, 9500, 9472, 32] @ str ''Install Rust '' @ replicate 38 46
               @ [32, 10007, 10]),
      Write ([32, 32, 32, 9474, 32, 32, 9492, 9472, 32] @ str ''Error: Unknown error'' @ [10]),
      Flush] \<and>
   snd (v2_runner_on_failed (init\<lparr>current_task := Some (str ''Install Rust'')\<rparr>)
          \<lparr>changed = None, msg = None\<rparr> True) = []"
  using runner_failed_output
          [of "init\<lparr>current_task := Some (str ''Install Rust'')\<rparr>"
              "\<lparr>changed = None, msg = None\<rparr>" False]
        runner_failed_output
          [of "init\<lparr>current_task := Some (str ''Install Rust'')\<rparr>"
              "\<lparr>changed = None, msg = None\<rparr>" True]
  by (simp add: str_def CR_def NL_def top_prefix_def err_prefix_def ballot_x_def)

section \<open>Uncategorized tasks\<close>

lemma categorize_task_current:
  "categorize_task lower (self\<lparr>current_task := t\<rparr>) name = categorize_task lower self name"
  by (simp add: categorize_task_def)












text \<open>
  On the table that \<open>__init__\<close> builds, \<open>Set hostname\<close> is itself a pattern of
  \<open>System Configuration\<close>; an uncategorized name of the same length is \<open>Reboot later\<close>.
\<close>

lemma set_hostname_categorized:
  "categorize_task ascii_lower init (str ''Set hostname'') = Some (str ''System Configuration'')"
  by code_simp

lemma reboot_later_lines:
  "snd (run ascii_lower init
          [TaskStart (str ''Reboot later'') False, RunnerOk \<lparr>changed = None, msg = None\<rparr>]) =
     [Write (top_prefix @ str ''Reboot later ''), Flush,
      Write (CR @ top_prefix @ str ''Reboot later '' @ replicate 38 46 @ str '' ''
               @ check_mark @ NL),
      Flush]"
proof -
  have c: "categorize_task ascii_lower init (str ''Reboot later'') = None"
    by code_simp
  have n: "str ''Reboot later'' \<noteq> [] \<and>
           \<not> startswith (str ''Reboot later'') (str ''Gathering Facts'')"
    by (simp add: str_def)
  have d: "dot_fill 50 (str ''Reboot later'') = replicate 38 46"
    by (simp add: dot_fill_replicate str_def)
  show ?thesis
    using c n d
    by (simp add: v2_playbook_on_task_start_def v2_runner_on_ok_def Let_def placeholder_def
          ok_line_def categorize_task_current str_def)
qed

section \<open>Internal tasks\<close>

text \<open>
  Claim C5, as stated, fails: \<open>v2_runner_on_failed\<close> does not test for the
  fact-gathering step. With \<open>Gathering Facts\<close> as the current task and
  \<open>ignore_errors\<close> false it writes the two lines of a failure.
\<close>

theorem internal_task_counterexample:
  "startswith (str ''Gathering Facts'') (str ''Gathering Facts'') \<and>
   snd (v2_runner_on_failed
          (fst (v2_playbook_on_task_start ascii_lower init (str ''Gathering Facts'') False))
          \<lparr>changed = None, msg = None\<rparr> False) =
     [Write (failed_line (str ''Gathering Facts'')),
      Write (error_line (str ''Unknown error'')),
      Flush]"
  by (simp add: v2_playbook_on_task_start_def v2_runner_on_failed_def Let_def str_def)

text \<open>
  Claim C5, amended. For every task whose name is empty or starts with
  \<open>Gathering Facts\<close>, \<open>v2_playbook_on_task_start\<close> and, while the task is current,
  \<open>v2_runner_on_ok\<close> write nothing, for any result; \<open>v2_runner_on_failed\<close> writes nothing
  when the name is empty or \<open>ignore_errors\<close> is true, and writes the two lines of a
  failure when a fact-gathering task fails with \<open>ignore_errors\<close> false.
\<close>

theorem internal_task_silent:
  assumes "task = [] \<or> startswith task (str ''Gathering Facts'')"
  shows "snd (v2_playbook_on_task_start lower self task is_conditional) = [] \<and>
         fst (v2_playbook_on_task_start lower self task is_conditional)
           = self\<lparr>current_task := Some task\<rparr> \<and>
         snd (v2_runner_on_ok lower (self\<lparr>current_task := Some task\<rparr>) result) = [] \<and>
         (task = [] \<or> ignore_errors \<longrightarrow>
            snd (v2_runner_on_failed (self\<lparr>current_task := Some task\<rparr>) result ignore_errors)
              = []) \<and>
         (task \<noteq> [] \<and> \<not> ignore_errors \<longrightarrow>
            snd (v2_runner_on_failed (self\<lparr>current_task := Some task\<rparr>) result ignore_errors)
              = [Write (failed_line task),
                 Write (error_line
                   (case msg result of Some m \<Rightarrow> m | None \<Rightarrow> str ''Unknown error'')),
                 Flush])"
  using assms
  by (auto simp: v2_playbook_on_task_start_def v2_runner_on_ok_def v2_runner_on_failed_def
        Let_def)

theorem internal_task_silent_witness:
  "startswith (str ''Gathering Facts'') (str ''Gathering Facts'') \<and>
   snd (v2_playbook_on_task_start ascii_lower init (str ''Gathering Facts'') False) = [] \<and>
   snd (v2_runner_on_ok ascii_lower (init\<lparr>current_task := Some (str ''Gathering Facts'')\<rparr>)
          \<lparr>changed = Some True, msg = None\<rparr>) = [] \<and>
   snd (v2_runner_on_failed (init\<lparr>current_task := Some (str ''Gathering Facts'')\<rparr>)
          \<lparr>changed = None, msg = Some (str ''unreachable'')\<rparr> True) = [] \<and>
   snd (v2_playbook_on_task_start ascii_lower init [] False) = [] \<and>
   snd (v2_runner_on_ok ascii_lower (init\<lparr>current_task := Some []\<rparr>)
          \<lparr>changed = None, msg = None\<rparr>) = [] \<and>
   snd (v2_runner_on_failed (init\<lparr>current_task := Some []\<rparr>)
          \<lparr>changed = None, msg = None\<rparr> False) = [] \<and>
   snd (v2_runner_on_failed (init\<lparr>current_task := Some (str ''Gathering Facts'')\<rparr>)
          \<lparr>changed = None, msg = Some (str ''unreachable'')\<rparr> False) =
     [Write (failed_line (str ''Gathering Facts'')),
      Write (error_line (str ''unreachable'')),
      Flush]"
proof -
  have h: "startswith (str ''Gathering Facts'') (str ''Gathering Facts'')"
    by (simp add: str_def)
  show ?thesis
    using h
      internal_task_silent [of "str ''Gathering Facts''" ascii_lower init False
        "\<lparr>changed = Some True, msg = None\<rparr>" True]
      internal_task_silent [of "str ''Gathering Facts''" ascii_lower init False
        "\<lparr>changed = None, msg = Some (str ''unreachable'')\<rparr>" True]
      internal_task_silent [of "[]" ascii_lower init False
        "\<lparr>changed = None, msg = None\<rparr>" False]
      internal_task_silent [of "str ''Gathering Facts''" ascii_lower init False
        "\<lparr>changed = None, msg = Some (str ''unreachable'')\<rparr>" False]
    by (simp add: str_def)
qed

section \<open>Categorized tasks\<close>

lemma scan_patterns_Some:
  "scan_patterns lower category patterns name = Some c \<Longrightarrow> c = category"
  by (induction patterns) (auto split: if_splits)

lemma scan_categories_Some:
  "scan_categories lower items name = Some c \<Longrightarrow> c \<in> fst ` set items"
  by (induction items) (auto split: option.splits dest: scan_patterns_Some)

lemma init_category_truthy:
  assumes "task_categories self = init_task_categories"
    and "categorize_task lower self name = Some c"
  shows "c \<noteq> []"
  using scan_categories_Some [of lower init_task_categories name c] assms
  by (auto simp: categorize_task_def init_task_categories_def str_def)

text \<open>
  Claim C7, as stated, fails: the format string of the condensed line begins with a
  carriage return, as the top-level one does. For the categorized task \<open>Install NVM\<close>
  the text written is not the claimed one.
\<close>

theorem categorized_task_counterexample:
  "categorize_task ascii_lower init (str ''Install NVM'') = Some (str ''Development Tools'') \<and>
   snd (v2_runner_on_ok ascii_lower
          (fst (v2_playbook_on_task_start ascii_lower init (str ''Install NVM'') False))
          \<lparr>changed = None, msg = None\<rparr>) =
     [Write (CR @ sub_prefix @ str ''NVM'' @ str '' '' @ replicate 32 46 @ str '' ''
               @ check_mark @ NL),
      Flush] \<and>
   CR @ sub_prefix @ str ''NVM'' @ str '' '' @ replicate 32 46 @ str '' '' @ check_mark @ NL
     \<noteq> sub_prefix @ str ''NVM'' @ str '' '' @ replicate 32 46 @ str '' '' @ check_mark @ NL"
proof -
  have c: "categorize_task ascii_lower init (str ''Install NVM'')
             = Some (str ''Development Tools'')"
    by code_simp
  have s: "simplify_task_name (str ''Install NVM'') = str ''NVM''"
    by code_simp
  have n: "str ''Install NVM'' \<noteq> [] \<and>
           \<not> startswith (str ''Install NVM'') (str ''Gathering Facts'')"
    by (simp add: str_def)
  have t: "str ''Development Tools'' \<noteq> []"
    by (simp add: str_def)
  have d: "dot_fill 35 (str ''NVM'') = replicate 32 46"
    by (simp add: dot_fill_replicate str_def)
  show ?thesis
    using c s n t d
    by (simp add: v2_playbook_on_task_start_def v2_runner_on_ok_def Let_def
          condensed_ok_line_def CR_def sub_prefix_def categorize_task_current)
qed

text \<open>
  Claim C7, amended. For every task that the table of \<open>__init__\<close> categorizes and whose
  name is not empty and does not start with \<open>Gathering Facts\<close>,
  \<open>v2_playbook_on_task_start\<close> writes nothing, and the following \<open>v2_runner_on_ok\<close>
  writes exactly a carriage return, the two-level prefix, the simplified name, a space,
  the dot fill to width 35, a space, the check mark and a newline.
\<close>

theorem categorized_task_lines:
  assumes "task_categories self = init_task_categories"
    and "categorize_task lower self task = Some category"
    and "task \<noteq> []"
    and "\<not> startswith task (str ''Gathering Facts'')"
  shows "v2_playbook_on_task_start lower self task is_conditional =
           (self\<lparr>current_task := Some task\<rparr>, []) \<and>
         v2_runner_on_ok lower (self\<lparr>current_task := Some task\<rparr>) result =
           (self\<lparr>current_task := Some task\<rparr>,
            [Write (CR @ sub_prefix @ simplify_task_name task @ str '' ''
                      @ replicate (nat (max (35 - int (length (simplify_task_name task))) 0)) 46
                      @ str '' '' @ check_mark @ NL),
             Flush])"
  using assms init_category_truthy [OF assms(1) assms(2)]
  by (simp add: v2_playbook_on_task_start_def v2_runner_on_ok_def Let_def
        condensed_ok_line_def dot_fill_replicate categorize_task_current)

theorem categorized_task_lines_witness:
  "task_categories init = init_task_categories \<and>
   categorize_task ascii_lower init (str ''Install NVM'') = Some (str ''Development Tools'') \<and>
   str ''Install NVM'' \<noteq> [] \<and>
   \<not> startswith (str ''Install NVM'') (str ''Gathering Facts'') \<and>
   v2_playbook_on_task_start ascii_lower init (str ''Install NVM'') False =
     (init\<lparr>current_task := Some (str ''Install NVM'')\<rparr>, []) \<and>
   snd (v2_runner_on_ok ascii_lower (init\<lparr>current_task := Some (str ''Install NVM'')\<rparr>)
          \<lparr>changed = None, msg = None\<rparr>) =
     [Write ([13, 32, 32, 32, 9474, 32, 32, 9500, 9472, 32] @ str ''NVM '' @ replicate 32 46
               @ [32, 10003, 10]),
      Flush]"
proof -
  have h1: "task_categories init = init_task_categories"
    by (simp add: init_def)
  have h2: "categorize_task ascii_lower init (str ''Install NVM'')
              = Some (str ''Development Tools'')"
    by code_simp
  have h3: "str ''Install NVM'' \<noteq> []"
    by (simp add: str_def)
  have h4: "\<not> startswith (str ''Install NVM'') (str ''Gathering Facts'')"
    by (simp add: str_def)
  have s: "simplify_task_name (str ''Install NVM'') = str ''NVM''"
    by code_simp
  have l: "length (str ''NVM'') = 3"
    by (simp add: str_def)
  have e: "CR @ sub_prefix @ str ''NVM'' @ str '' '' @ replicate 32 46 @ str '' ''
             @ check_mark @ NL
           = [13, 32, 32, 32, 9474, 32, 32, 9500, 9472, 32] @ str ''NVM '' @ replicate 32 46
               @ [32, 10003, 10]"
    by (simp add: CR_def NL_def sub_prefix_def check_mark_def str_def)
  show ?thesis
    using h1 h2 h3 h4 s l e
      categorized_task_lines [OF h1 h2 h3 h4, of False "\<lparr>changed = None, msg = None\<rparr>"]
    by simp
qed

section \<open>Patterns written with wildcard markers\<close>

text \<open>
  The second disjunct of \<open>pattern_hit\<close> serves a pattern that is wrapped in a leading
  and a trailing \<open>.*\<close>: its inner text, \<open>pattern[2:-2]\<close>, is looked for as well. With a
  \<open>lower\<close> that works character by character, such a pattern matches exactly when its
  inner text is a case-insensitive substring of the task name.
\<close>

lemma slice_inner: "slice (str ''.*'' @ t @ str ''.*'') 2 (- 2) = t"
  by (simp add: slice_def clip_index_def str_def)

lemma wrapped_pattern_hit:
  "pattern_hit lower (str ''.*'' @ t @ str ''.*'') name \<longleftrightarrow>
     str_in (lower (str ''.*'' @ t @ str ''.*'')) (lower name) \<or> str_in (lower t) (lower name)"
  unfolding pattern_hit_def slice_inner
  by (simp add: endswith_def startswith_prefix str_def)

lemma str_in_middle: "str_in (a @ t @ b) s \<Longrightarrow> str_in t s"
  unfolding str_in_sublist sublist_def by (metis append.assoc)

lemma wrapped_pattern_inner_text:
  "pattern_hit (map f) (str ''.*'' @ t @ str ''.*'') name = ci_substring (map f) t name"
  unfolding wrapped_pattern_hit ci_substring_def
  using str_in_middle [of "map f (str ''.*'')" "map f t" "map f (str ''.*'')" "map f name"]
  by auto

text \<open>
  The one pattern of the table that carries a marker, \<open>Change.*shell\<close>, has it in the
  middle. The second disjunct does not apply to it, so it is looked for as plain text,
  marker included.
\<close>

lemma change_shell_literal:
  "pattern_hit lower (str ''Change.*shell'') name
     = str_in (lower (str ''Change.*shell'')) (lower name)"
  by (simp add: pattern_hit_def str_def)

text \<open>
  Claim C4 says that the markers of a pattern such as \<open>Change.*shell\<close> take no part in
  what it matches. In the code they do: the pattern matches neither the task name
  \<open>Change user shell to zsh\<close> nor \<open>Changeshell\<close>, both stay without a category, and
  it matches a name that spells the marker out; the wrapped pattern \<open>.*shell.*\<close>
  would match the first name.
\<close>

theorem change_shell_unmatched:
  "\<not> pattern_hit ascii_lower (str ''Change.*shell'') (str ''Change user shell to zsh'') \<and>
   categorize_task ascii_lower init (str ''Change user shell to zsh'') = None \<and>
   \<not> pattern_hit ascii_lower (str ''Change.*shell'') (str ''Changeshell'') \<and>
   categorize_task ascii_lower init (str ''Changeshell'') = None \<and>
   pattern_hit ascii_lower (str ''Change.*shell'') (str ''change.*shell'') \<and>
   pattern_hit ascii_lower (str ''.*shell.*'') (str ''Change user shell to zsh'')"
  by code_simp

section \<open>Overrides of the name simplifier\<close>

lemma strip_first_prefix_cases:
  "strip_first_prefix items x = x \<or>
   (\<exists>pfx r rest. (pfx, r) \<in> set items \<and> x = pfx @ rest \<and> strip_first_prefix items x = rest)"
proof (induction items)
  case Nil
  show ?case by simp
next
  case (Cons item items)
  obtain pfx r where item: "item = (pfx, r)" by (cases item)
  show ?case
  proof (cases "startswith x pfx")
    case True
    then obtain rest where "x = pfx @ rest" by (auto simp: startswith_prefix prefix_def)
    then show ?thesis using True by (auto simp: item slice_from_length)
  next
    case False
    then show ?thesis using Cons.IH by (auto simp: item)
  qed
qed

text \<open>
  None of the seven prefixes overlaps a trigger: a trigger that occurs in the name
  occurs in what is left after the prefix.
\<close>

lemma trigger_survives:
  assumes "t \<in> set triggers" "(pfx, r) \<in> set simplifications" "str_in t (pfx @ rest)"
  shows "str_in t rest"
  using assms
  by (auto simp: triggers_def simplifications_def str_def)

lemma strip_keeps_trigger:
  assumes "t \<in> set triggers"
  shows "str_in t (strip_first_prefix simplifications x) = str_in t x"
  using strip_first_prefix_cases [of simplifications x] trigger_survives [OF assms]
    str_in_suffix [of t]
  by metis

text \<open>
  Claim C6, as stated, fails: \<open>base system packages\<close> is tested first, so a name that
  contains both triggers gets the other label.
\<close>

theorem simplify_global_counterexample:
  "str_in (str ''global npm packages'')
     (str ''Install base system packages and global npm packages'') \<and>
   simplify_task_name (str ''Install base system packages and global npm packages'')
     = str ''Base packages (25)'' \<and>
   simplify_task_name (str ''Install base system packages and global npm packages'')
     \<noteq> str ''Global packages (5)''"
  by code_simp

text \<open>
  Claim C6, amended. For every name that contains \<open>global npm packages\<close> and does not
  contain \<open>base system packages\<close>, \<open>_simplify_task_name\<close> returns exactly
  \<open>Global packages (5)\<close>, whatever else surrounds the trigger; for a name that contains
  both it returns \<open>Base packages (25)\<close>.
\<close>

theorem simplify_global_unless_base:
  "(str_in (str ''global npm packages'') x \<and> \<not> str_in (str ''base system packages'') x \<longrightarrow>
      simplify_task_name x = str ''Global packages (5)'') \<and>
   (str_in (str ''global npm packages'') x \<and> str_in (str ''base system packages'') x \<longrightarrow>
      simplify_task_name x = str ''Base packages (25)'')"
proof -
  have g: "str ''global npm packages'' \<in> set triggers"
    by (simp add: triggers_def)
  have b: "str ''base system packages'' \<in> set triggers"
    by (simp add: triggers_def)
  show ?thesis
    using strip_keeps_trigger [OF g, of x] strip_keeps_trigger [OF b, of x]
    by (simp add: simplify_task_name_def Let_def)
qed

theorem simplify_global_unless_base_witness:
  "str_in (str ''global npm packages'') (str ''Install global npm packages'') \<and>
   \<not> str_in (str ''base system packages'') (str ''Install global npm packages'') \<and>
   simplify_task_name (str ''Install global npm packages'') = str ''Global packages (5)'' \<and>
   str_in (str ''global npm packages'') (str ''base system packages, global npm packages'') \<and>
   str_in (str ''base system packages'') (str ''base system packages, global npm packages'') \<and>
   simplify_task_name (str ''base system packages, global npm packages'')
     = str ''Base packages (25)''"
proof -
  have h1: "str_in (str ''global npm packages'') (str ''Install global npm packages'')"
    by code_simp
  have h2: "\<not> str_in (str ''base system packages'') (str ''Install global npm packages'')"
    by code_simp
  have h3: "str_in (str ''global npm packages'')
              (str ''base system packages, global npm packages'')"
    by code_simp
  have h4: "str_in (str ''base system packages'')
              (str ''base system packages, global npm packages'')"
    by code_simp
  show ?thesis
    using h1 h2 h3 h4
      simplify_global_unless_base [of "str ''Install global npm packages''"]
      simplify_global_unless_base [of "str ''base system packages, global npm packages''"]
    by simp
qed

text \<open>
  Claim C10. \<open>_simplify_task_name\<close> applies at most one override label, by a fixed
  priority: \<open>base system packages\<close> before \<open>global npm packages\<close> before
  \<open>additional APT packages\<close>; without a trigger the result is the working name. The
  triggers are looked for in the working name, the task name after the loop has removed
  the first matching prefix.
\<close>

theorem simplify_override_priority:
  "(str_in (str ''base system packages'') (strip_first_prefix simplifications task_name) \<longrightarrow>
      simplify_task_name task_name = str ''Base packages (25)'') \<and>
   (\<not> str_in (str ''base system packages'') (strip_first_prefix simplifications task_name) \<and>
    str_in (str ''global npm packages'') (strip_first_prefix simplifications task_name) \<longrightarrow>
      simplify_task_name task_name = str ''Global packages (5)'') \<and>
   (\<not> str_in (str ''base system packages'') (strip_first_prefix simplifications task_name) \<and>
    \<not> str_in (str ''global npm packages'') (strip_first_prefix simplifications task_name) \<and>
    str_in (str ''additional APT packages'') (strip_first_prefix simplifications task_name) \<longrightarrow>
      simplify_task_name task_name = str ''Additional packages'') \<and>
   (\<not> str_in (str ''base system packages'') (strip_first_prefix simplifications task_name) \<and>
    \<not> str_in (str ''global npm packages'') (strip_first_prefix simplifications task_name) \<and>
    \<not> str_in (str ''additional APT packages'') (strip_first_prefix simplifications task_name) \<longrightarrow>
      simplify_task_name task_name = strip_first_prefix simplifications task_name)"
  by (simp add: simplify_task_name_def Let_def)

theorem simplify_override_priority_witness:
  "strip_first_prefix simplifications
     (str ''Install base system packages, global npm packages, additional APT packages'')
     = str ''base system packages, global npm packages, additional APT packages'' \<and>
   simplify_task_name
     (str ''Install base system packages, global npm packages, additional APT packages'')
     = str ''Base packages (25)'' \<and>
   strip_first_prefix simplifications
     (str ''Install global npm packages, additional APT packages'')
     = str ''global npm packages, additional APT packages'' \<and>
   simplify_task_name (str ''Install global npm packages, additional APT packages'')
     = str ''Global packages (5)'' \<and>
   simplify_task_name (str ''Install additional APT packages'') = str ''Additional packages'' \<and>
   simplify_task_name (str ''Install NVM'') = str ''NVM''"
proof -
  let ?a = "str ''Install base system packages, global npm packages, additional APT packages''"
  let ?b = "str ''Install global npm packages, additional APT packages''"
  let ?c = "str ''Install additional APT packages''"
  let ?d = "str ''Install NVM''"
  have a: "strip_first_prefix simplifications ?a
             = str ''base system packages, global npm packages, additional APT packages''"
    by code_simp
  have b: "strip_first_prefix simplifications ?b
             = str ''global npm packages, additional APT packages''"
    by code_simp
  have c: "strip_first_prefix simplifications ?c = str ''additional APT packages''"
    by code_simp
  have d: "strip_first_prefix simplifications ?d = str ''NVM''"
    by code_simp
  have ha: "str_in (str ''base system packages'')
              (str ''base system packages, global npm packages, additional APT packages'')"
    by code_simp
  have hb: "\<not> str_in (str ''base system packages'')
                (str ''global npm packages, additional APT packages'') \<and>
            str_in (str ''global npm packages'')
                (str ''global npm packages, additional APT packages'')"
    by code_simp
  have hc: "\<not> str_in (str ''base system packages'') (str ''additional APT packages'') \<and>
            \<not> str_in (str ''global npm packages'') (str ''additional APT packages'') \<and>
            str_in (str ''additional APT packages'') (str ''additional APT packages'')"
    by code_simp
  have hd: "\<not> str_in (str ''base system packages'') (str ''NVM'') \<and>
            \<not> str_in (str ''global npm packages'') (str ''NVM'') \<and>
            \<not> str_in (str ''additional APT packages'') (str ''NVM'')"
    by code_simp
  show ?thesis
    using a b c d ha hb hc hd
      simplify_override_priority [of ?a] simplify_override_priority [of ?b]
      simplify_override_priority [of ?c] simplify_override_priority [of ?d]
    by simp
qed

end
